theory Spec2Isabelle
  imports Complex_Main
begin

section \<open>Python values\<close>

text \<open>
  An exception is its class name and its argument. The module raises two exceptions by
  itself, both of class \<open>Exception\<close>; every other failure is one that an operation of the
  interpreter (a subscript, an unpacking) or a library call raises and that the module lets
  through. For errors of the interpreter only the class is modelled, except for a
  \<open>KeyError\<close> on a string key, whose argument is the missing key.
\<close>

datatype pyexc = Raise (exc_class: string) (exc_arg: string)

definition raises :: "pyexc + 'a \<Rightarrow> string \<Rightarrow> bool" where
  "raises r cls = (case r of Inl e \<Rightarrow> exc_class e = cls | Inr _ \<Rightarrow> False)"

text \<open>
  A number is an \<open>int\<close>, of any size, or a \<open>float\<close>: a finite value, the negative zero, an
  infinity or NaN (\<open>Finite 0\<close> is the positive zero). Nothing in the module computes with
  numbers: they are parsed, passed on and formatted, so a finite float is the real it
  stands for, and numbers that Python writes differently (\<open>0\<close>, \<open>0.0\<close>, \<open>-0.0\<close>) are
  different values here.
\<close>

datatype pyfloat = Finite real | NegZero | PosInf | NegInf | NaN

datatype pynum = PyInt int | PyFloat pyfloat

text \<open>What \<open>response.json()\<close> returns: a dict keeps its keys in insertion order.\<close>

datatype json =
    JNull
  | JBool bool
  | JNum pynum
  | JStr string
  | JArr "json list"
  | JObj "(string \<times> json) list"

text \<open>
  \<open>xs[i]\<close> on a list or an array: a negative index counts from the end, and an index
  outside \<open>-len .. len-1\<close> raises \<open>IndexError\<close>.
\<close>

definition py_getitem :: "'a list \<Rightarrow> int \<Rightarrow> pyexc + 'a" where
  "py_getitem xs i =
     (if 0 \<le> i \<and> i < int (length xs) then Inr (xs ! nat i)
      else if - int (length xs) \<le> i \<and> i < 0 then Inr (xs ! nat (int (length xs) + i))
      else Inl (Raise ''IndexError'' []))"

text \<open>\<open>d[key]\<close> on a dict.\<close>

definition dict_getitem :: "(string \<times> 'v) list \<Rightarrow> string \<Rightarrow> pyexc + 'v" where
  "dict_getitem d k =
     (case map_of d k of None \<Rightarrow> Inl (Raise ''KeyError'' k) | Some v \<Rightarrow> Inr v)"

text \<open>\<open>data["key"]\<close> on a parsed JSON value: only a dict takes a string subscript.\<close>

fun getitem_str :: "json \<Rightarrow> string \<Rightarrow> pyexc + json" where
  "getitem_str (JObj kvs) k = dict_getitem kvs k"
| "getitem_str _ k = Inl (Raise ''TypeError'' [])"

text \<open>
  \<open>data[0]\<close> on a parsed JSON value. The keys of a parsed dict are strings, so an integer
  is never among them; a string yields its character.
\<close>

fun getitem_int :: "json \<Rightarrow> int \<Rightarrow> pyexc + json" where
  "getitem_int (JArr xs) i = py_getitem xs i"
| "getitem_int (JStr s) i = py_getitem (map (\<lambda>c. JStr [c]) s) i"
| "getitem_int (JObj kvs) i = Inl (Raise ''KeyError'' [])"
| "getitem_int _ i = Inl (Raise ''TypeError'' [])"

text \<open>
  A list comprehension \<open>[f(x) for x in xs]\<close> whose body may raise: the first exception
  ends it.
\<close>

fun comprehension :: "('a \<Rightarrow> pyexc + 'b) \<Rightarrow> 'a list \<Rightarrow> pyexc + 'b list" where
  "comprehension f [] = Inr []"
| "comprehension f (x # xs) =
     (case f x of
        Inl e \<Rightarrow> Inl e
      | Inr y \<Rightarrow> (case comprehension f xs of Inl e \<Rightarrow> Inl e | Inr ys \<Rightarrow> Inr (y # ys)))"

text \<open>Iterating over a parsed JSON value, and unpacking one into two targets.\<close>

fun py_iter :: "json \<Rightarrow> pyexc + json list" where
  "py_iter (JArr xs) = Inr xs"
| "py_iter (JStr s) = Inr (map (\<lambda>c. JStr [c]) s)"
| "py_iter (JObj kvs) = Inr (map (\<lambda>kv. JStr (fst kv)) kvs)"
| "py_iter _ = Inl (Raise ''TypeError'' [])"

definition unpack2 :: "json \<Rightarrow> pyexc + (json \<times> json)" where
  "unpack2 v =
     (case py_iter v of
        Inl e \<Rightarrow> Inl e
      | Inr [a, b] \<Rightarrow> Inr (a, b)
      | Inr _ \<Rightarrow> Inl (Raise ''ValueError'' []))"

text \<open>\<open>sep.join(parts)\<close>.\<close>

fun join :: "string \<Rightarrow> string list \<Rightarrow> string" where
  "join sep [] = []"
| "join sep [p] = p"
| "join sep (p # q # ps) = p @ sep @ join sep (q # ps)"

section \<open>The libraries the module calls\<close>

text \<open>
  An array is described by the nested lists it holds (\<open>tolist()\<close>). A distance matrix is
  an array of rows of numbers.
\<close>

datatype ndarray = NDArray (tolist: json)

text \<open>What \<open>requests.get\<close> returns: the status and the outcome of \<open>response.json()\<close>.\<close>

record response =
  status_code :: int
  json_body :: "pyexc + json"

text \<open>The objects of the map library: a map has a centre, a zoom level and children.\<close>

datatype element =
    PolyLine "(json \<times> json) list" string real
  | Marker "pynum \<times> pynum" string

record folium_map =
  location :: "pynum list"
  zoom_start :: int
  children :: "element list"

definition add_to :: "element \<Rightarrow> folium_map \<Rightarrow> folium_map" where
  "add_to el m = m\<lparr>children := children m @ [el]\<rparr>"

type_synonym files = "string \<rightharpoonup> folium_map"

text \<open>
  The module is 140 lines that call \<open>requests\<close>, \<open>numpy\<close>, \<open>scipy\<close>, \<open>folium\<close> and
  \<open>os.path\<close>. None of these is part of the repository, so each call is a field of
  \<open>libs\<close>, and every theorem below holds for all libraries, or for all that meet the
  hypothesis it names. A call that can raise returns a sum. \<open>format_value\<close> is what an
  f-string writes for a number.
\<close>

record libs =
  format_value :: "pynum \<Rightarrow> string"
  requests_get :: "string \<Rightarrow> pyexc + response"
  np_array :: "json \<Rightarrow> pyexc + ndarray"
  linear_sum_assignment :: "ndarray \<Rightarrow> pyexc + (int list \<times> int list)"
  os_path_splitext :: "string \<Rightarrow> string \<times> string"
  folium_Map :: "pynum list \<Rightarrow> int \<Rightarrow> pyexc + folium_map"
  folium_PolyLine :: "(json \<times> json) list \<Rightarrow> string \<Rightarrow> real \<Rightarrow> pyexc + element"
  folium_Marker :: "pynum \<times> pynum \<Rightarrow> string \<Rightarrow> pyexc + element"
  map_save :: "folium_map \<Rightarrow> string \<Rightarrow> files \<Rightarrow> (pyexc + unit) \<times> files"

section \<open>The state outside the program\<close>

text \<open>The files on disk and the records the logger has emitted (level and message).\<close>

record world =
  files :: files
  log_records :: "(string \<times> string) list"

definition logger_warning :: "string \<Rightarrow> world \<Rightarrow> world" where
  "logger_warning msg w = w\<lparr>log_records := log_records w @ [(''WARNING'', msg)]\<rparr>"

definition logger_info :: "string \<Rightarrow> world \<Rightarrow> world" where
  "logger_info msg w = w\<lparr>log_records := log_records w @ [(''INFO'', msg)]\<rparr>"

section \<open>class RouteBuilder\<close>

text \<open>\<open>self.locations\<close>: a dict from name to (latitude, longitude), in insertion order.\<close>

record route_builder =
  locations :: "(string \<times> (pynum \<times> pynum)) list"

subsection \<open>\<open>_optimize_route_scipy\<close>\<close>

text \<open>
  \<^verbatim>\<open>row_ind, col_ind = linear_sum_assignment(distance_matrix)\<close>
  \<^verbatim>\<open>return [row_ind[i] for i in col_ind]\<close>
\<close>

definition optimize_route_scipy :: "libs \<Rightarrow> route_builder \<Rightarrow> ndarray \<Rightarrow> pyexc + int list" where
  "optimize_route_scipy L self distance_matrix =
     (case linear_sum_assignment L distance_matrix of
        Inl e \<Rightarrow> Inl e
      | Inr (row_ind, col_ind) \<Rightarrow> comprehension (py_getitem row_ind) col_ind)"

subsection \<open>\<open>_get_distance_matrix\<close>\<close>

definition lon_lat :: "libs \<Rightarrow> pynum \<times> pynum \<Rightarrow> string" where
  \<comment> \<open>\<^verbatim>\<open>f"{lng},{lat}"\<close> for a (lat, lng) pair\<close>
  "lon_lat L p = (case p of (lat, lng) \<Rightarrow> format_value L lng @ '','' @ format_value L lat)"

definition table_url :: "libs \<Rightarrow> (string \<times> (pynum \<times> pynum)) list \<Rightarrow> string" where
  "table_url L locs =
     (let base_url = ''http://router.project-osrm.org/table/v1/driving/'';
          coordinates = join '';'' (map (lon_lat L) (map snd locs))
      in base_url @ coordinates @ ''?annotations=distance'')"

definition get_distance_matrix ::
  "libs \<Rightarrow> route_builder \<Rightarrow> (string \<times> (pynum \<times> pynum)) list \<Rightarrow> pyexc + ndarray" where
  "get_distance_matrix L self locs =
     (case requests_get L (table_url L locs) of
        Inl e \<Rightarrow> Inl e
      | Inr response \<Rightarrow>
          if status_code response \<noteq> 200
          then Inl (Raise ''Exception'' ''Failed to obtain distance matrix from OSRM'')
          else (case json_body response of
                  Inl e \<Rightarrow> Inl e
                | Inr data \<Rightarrow>
                    (case getitem_str data ''distances'' of
                       Inl e \<Rightarrow> Inl e
                     | Inr d \<Rightarrow> np_array L d)))"

subsection \<open>\<open>_get_route_via_osrm\<close>\<close>

definition route_url :: "libs \<Rightarrow> (pynum \<times> pynum) list \<Rightarrow> string" where
  "route_url L ordered_locations =
     (let base_url = ''http://router.project-osrm.org/route/v1/driving/'';
          coordinates = join '';'' (map (lon_lat L) ordered_locations)
      in base_url @ coordinates @ ''?overview=full&geometries=geojson'')"

definition route_geometry :: "json \<Rightarrow> pyexc + json" where
  \<comment> \<open>\<^verbatim>\<open>data["routes"][0]["geometry"]["coordinates"]\<close>\<close>
  "route_geometry data =
     (case getitem_str data ''routes'' of
        Inl e \<Rightarrow> Inl e
      | Inr routes \<Rightarrow>
          (case getitem_int routes 0 of
             Inl e \<Rightarrow> Inl e
           | Inr route \<Rightarrow>
               (case getitem_str route ''geometry'' of
                  Inl e \<Rightarrow> Inl e
                | Inr geometry \<Rightarrow> getitem_str geometry ''coordinates'')))"

definition get_route_via_osrm ::
  "libs \<Rightarrow> route_builder \<Rightarrow> (pynum \<times> pynum) list \<Rightarrow> pyexc + json" where
  "get_route_via_osrm L self ordered_locations =
     (case requests_get L (route_url L ordered_locations) of
        Inl e \<Rightarrow> Inl e
      | Inr response \<Rightarrow>
          if status_code response \<noteq> 200
          then Inl (Raise ''Exception'' ''Failed to obtain a route from OSRM'')
          else (case json_body response of
                  Inl e \<Rightarrow> Inl e
                | Inr data \<Rightarrow> route_geometry data))"

subsection \<open>\<open>_visualize_route\<close>\<close>

text \<open>\<^verbatim>\<open>[(lat, lng) for lng, lat in route_coordinates]\<close>\<close>

definition swapped_points :: "json \<Rightarrow> pyexc + (json \<times> json) list" where
  "swapped_points route_coordinates =
     (case py_iter route_coordinates of
        Inl e \<Rightarrow> Inl e
      | Inr pts \<Rightarrow>
          comprehension
            (\<lambda>pt. case unpack2 pt of Inl e \<Rightarrow> Inl e | Inr (lng, lat) \<Rightarrow> Inr (lat, lng)) pts)"

text \<open>The loop over \<open>self.locations.items()\<close> that adds one marker per location.\<close>

fun add_markers ::
  "libs \<Rightarrow> (string \<times> (pynum \<times> pynum)) list \<Rightarrow> folium_map \<Rightarrow> pyexc + folium_map" where
  "add_markers L [] m = Inr m"
| "add_markers L ((name, coords) # rest) m =
     (case folium_Marker L coords name of
        Inl e \<Rightarrow> Inl e
      | Inr marker \<Rightarrow> add_markers L rest (add_to marker m))"

definition visualize_route :: "libs \<Rightarrow> route_builder \<Rightarrow> json \<Rightarrow> pyexc + folium_map" where
  "visualize_route L self route_coordinates =
     (case dict_getitem (locations self) ''warehouse'' of
        Inl e \<Rightarrow> Inl e
      | Inr (lat, lng) \<Rightarrow>
          (case folium_Map L [lat, lng] 4 of
             Inl e \<Rightarrow> Inl e
           | Inr m \<Rightarrow>
               (case swapped_points route_coordinates of
                  Inl e \<Rightarrow> Inl e
                | Inr pts \<Rightarrow>
                    (case folium_PolyLine L pts ''blue'' 2.5 of
                       Inl e \<Rightarrow> Inl e
                     | Inr line \<Rightarrow> add_markers L (locations self) (add_to line m)))))"

subsection \<open>\<open>build\<close>\<close>

definition extension_warning :: "string \<Rightarrow> string \<Rightarrow> string" where
  "extension_warning target_ext ext =
     ''The filename extension should be '' @ [CHR 0x27] @ target_ext @ [CHR 0x27]
       @ '', provided '' @ [CHR 0x27] @ ext @ [CHR 0x27] @ ''.''"

definition saved_message :: "string \<Rightarrow> string" where
  "saved_message filename =
     ''The route is saved to a file '' @ [CHR 0x27] @ filename @ [CHR 0x27] @ ''.''"

text \<open>
  \<open>filename\<close> is an \<open>Optional[str]\<close>: on \<open>None\<close>, \<open>os.path.splitext\<close> raises
  \<open>TypeError\<close> before anything else happens. The warning changes the log and nothing
  else; every later step that raises ends the build with the world as it is then.
\<close>

definition build ::
  "libs \<Rightarrow> route_builder \<Rightarrow> string option \<Rightarrow> world \<Rightarrow> (pyexc + unit) \<times> world" where
  "build L self filename w =
     (case filename of
        None \<Rightarrow> (Inl (Raise ''TypeError'' []), w)
      | Some name \<Rightarrow>
     (let target_ext = ''.html'';
          ext = snd (os_path_splitext L name);
          w1 = (if ext \<noteq> target_ext
                then logger_warning (extension_warning target_ext ext) w else w)
      in
     (case get_distance_matrix L self (locations self) of
        Inl e \<Rightarrow> (Inl e, w1)
      | Inr distance_matrix \<Rightarrow>
     (case optimize_route_scipy L self distance_matrix of
        Inl e \<Rightarrow> (Inl e, w1)
      | Inr route_order \<Rightarrow>
     (case comprehension (py_getitem (map snd (locations self))) route_order of
        Inl e \<Rightarrow> (Inl e, w1)
      | Inr ordered_locations \<Rightarrow>
     (case get_route_via_osrm L self ordered_locations of
        Inl e \<Rightarrow> (Inl e, w1)
      | Inr route_coordinates \<Rightarrow>
     (case visualize_route L self route_coordinates of
        Inl e \<Rightarrow> (Inl e, w1)
      | Inr route_map \<Rightarrow>
     (case map_save L route_map name (files w1) of
        (Inl e, fs) \<Rightarrow> (Inl e, w1\<lparr>files := fs\<rparr>)
      | (Inr u, fs) \<Rightarrow>
          (Inr (), logger_info (saved_message name) (w1\<lparr>files := fs\<rparr>))))))))))"

section \<open>Distance matrices and assignments\<close>

text \<open>The array that holds a matrix of floats, and the one that holds finite distances.\<close>

definition array2d :: "pyfloat list list \<Rightarrow> ndarray" where
  "array2d rows = NDArray (JArr (map (\<lambda>r. JArr (map (\<lambda>x. JNum (PyFloat x)) r)) rows))"

definition distance_array :: "real list list \<Rightarrow> ndarray" where
  "distance_array m = array2d (map (map Finite) m)"

text \<open>
  An array of Python ints, as \<open>np.array\<close> builds it from a JSON array of integers. An
  integer beyond 64 bits is kept as a Python object, so the array that holds one has the
  dtype \<open>object\<close> and no numeric dtype.
\<close>

definition int_array :: "int list list \<Rightarrow> ndarray" where
  "int_array rows = NDArray (JArr (map (\<lambda>r. JArr (map (\<lambda>x. JNum (PyInt x)) r)) rows))"

text \<open>The entries of a two-dimensional array of finite numbers, ints or floats.\<close>

fun number_value :: "json \<Rightarrow> real option" where
  "number_value (JNum (PyInt i)) = Some (real_of_int i)"
| "number_value (JNum (PyFloat (Finite x))) = Some x"
| "number_value (JNum (PyFloat NegZero)) = Some 0"
| "number_value _ = None"

fun row_values :: "json \<Rightarrow> real list option" where
  "row_values (JArr xs) = those (map number_value xs)"
| "row_values _ = None"

fun finite_entries :: "ndarray \<Rightarrow> real list list option" where
  "finite_entries (NDArray (JArr rows)) = those (map row_values rows)"
| "finite_entries _ = None"

definition square :: "nat \<Rightarrow> 'a list list \<Rightarrow> bool" where
  "square N m = (length m = N \<and> list_all (\<lambda>r. length r = N) m)"

text \<open>
  The Distance Matrix invariant with positive road distances: zero on the diagonal,
  strictly positive elsewhere.
\<close>

definition zero_diagonal_positive_elsewhere :: "nat \<Rightarrow> real list list \<Rightarrow> bool" where
  "zero_diagonal_positive_elsewhere N m =
     list_all (\<lambda>i. list_all (\<lambda>j. if i = j then m ! i ! j = 0 else 0 < m ! i ! j) [0..<N])
       [0..<N]"

definition positive_distance_matrix :: "nat \<Rightarrow> real list list \<Rightarrow> bool" where
  "positive_distance_matrix N m = (square N m \<and> zero_diagonal_positive_elsewhere N m)"

text \<open>
  An assignment of the rows \<open>0..N-1\<close> to columns is the list of the columns, one per row,
  no column twice; its cost is the sum of the entries it picks.
\<close>

definition assignments :: "nat \<Rightarrow> nat list list" where
  "assignments N = filter distinct (List.n_lists N [0..<N])"

definition assignment_cost :: "real list list \<Rightarrow> nat list \<Rightarrow> real" where
  "assignment_cost m cols = (\<Sum>i\<leftarrow>[0..<length cols]. m ! i ! (cols ! i))"

text \<open>
  What \<open>scipy.optimize.linear_sum_assignment\<close> documents for a square cost matrix: the
  row indices are \<open>arange(N)\<close>, the column indices are an assignment, and (the second
  predicate) no assignment costs less.
\<close>

definition is_assignment :: "nat \<Rightarrow> int list \<times> int list \<Rightarrow> bool" where
  "is_assignment N res =
     (fst res = map int [0..<N] \<and> snd res \<in> set (map (map int) (assignments N)))"

definition is_min_assignment :: "nat \<Rightarrow> real list list \<Rightarrow> int list \<times> int list \<Rightarrow> bool" where
  "is_min_assignment N m res =
     (is_assignment N res \<and>
      list_all (\<lambda>p. assignment_cost m (map nat (snd res)) \<le> assignment_cost m p)
        (assignments N))"

text \<open>The same two properties for an array, by its entries.\<close>

definition positive_distance_array :: "nat \<Rightarrow> ndarray \<Rightarrow> bool" where
  "positive_distance_array N dm =
     (case finite_entries dm of None \<Rightarrow> False | Some m \<Rightarrow> positive_distance_matrix N m)"

definition min_assignment_for :: "nat \<Rightarrow> ndarray \<Rightarrow> int list \<times> int list \<Rightarrow> bool" where
  "min_assignment_for N dm res =
     (case finite_entries dm of None \<Rightarrow> False | Some m \<Rightarrow> is_min_assignment N m res)"


section \<open>Test doubles\<close>

text \<open>
  Scenario A of the specification: a warehouse at (0.0, 0.0) and a store at (1.0, 1.0), a
  distance service that answers \<open>[[0, 10], [10, 0]]\<close> and a geometry service that answers
  \<open>[[0, 0], [0.5, 0.5], [1, 1]]\<close>. The solver's answer on that matrix is the identity
  assignment, the only one of cost 0. The solver of the double also answers on three more
  matrices, each with a single cheapest assignment: \<open>[[5, 1], [1, 5]]\<close> (the swap, cost 2),
  \<open>[[9, 1, 9], [9, 9, 1], [1, 9, 9]]\<close> (the cycle 1, 2, 0, cost 3) and the 2-by-3 matrix
  \<open>[[1, 9, 9], [9, 1, 9]]\<close> (columns 0 and 1, cost 2); on NaN it raises \<open>ValueError\<close>,
  as the library does.
\<close>

definition warehouse_at :: "pynum \<times> pynum" where
  "warehouse_at = (PyFloat (Finite 0), PyFloat (Finite 0))"

definition store_at :: "pynum \<times> pynum" where
  "store_at = (PyFloat (Finite 1), PyFloat (Finite 1))"

definition two_locations :: route_builder where
  "two_locations = \<lparr>locations = [(''warehouse'', warehouse_at), (''store'', store_at)]\<rparr>"

definition no_files :: world where
  "no_files = \<lparr>files = Map.empty, log_records = []\<rparr>"

definition table_response :: "real list list \<Rightarrow> response" where
  "table_response m =
     \<lparr>status_code = 200,
      json_body = Inr (JObj [(''code'', JStr ''Ok''), (''distances'', tolist (distance_array m))])\<rparr>"

definition route_response :: "json \<Rightarrow> response" where
  "route_response routes =
     \<lparr>status_code = 200, json_body = Inr (JObj [(''code'', JStr ''Ok''), (''routes'', routes)])\<rparr>"

definition three_points :: json where
  "three_points =
     JArr [JArr [JNum (PyFloat (Finite 0)), JNum (PyFloat (Finite 0))],
           JArr [JNum (PyFloat (Finite 0.5)), JNum (PyFloat (Finite 0.5))],
           JArr [JNum (PyFloat (Finite 1)), JNum (PyFloat (Finite 1))]]"

definition error_response :: "int \<Rightarrow> response" where
  "error_response code = \<lparr>status_code = code, json_body = Inl (Raise ''JSONDecodeError'' [])\<rparr>"

definition scenario_A :: libs where
  "scenario_A =
     \<lparr>format_value = (\<lambda>x.
        if x = PyFloat (Finite 0) then ''0.0''
        else if x = PyFloat (Finite 1) then ''1.0'' else ''nan''),
      requests_get = (\<lambda>url.
        if url = ''http://router.project-osrm.org/table/v1/driving/0.0,0.0;1.0,1.0?annotations=distance''
        then Inr (table_response [[0, 10], [10, 0]])
        else if url = ''http://router.project-osrm.org/route/v1/driving/0.0,0.0;1.0,1.0?overview=full&geometries=geojson''
        then Inr (route_response
               (JArr [JObj [(''geometry'', JObj [(''coordinates'', three_points)])]]))
        else Inr (error_response 400)),
      np_array = (\<lambda>d. Inr (NDArray d)),
      linear_sum_assignment = (\<lambda>a.
        if a = distance_array [[0, 10], [10, 0]] then Inr ([0, 1], [0, 1])
        else if a = distance_array [[5, 1], [1, 5]] then Inr ([0, 1], [1, 0])
        else if a = distance_array [[1, 9, 9], [9, 1, 9]] then Inr ([0, 1], [0, 1])
        else if a = distance_array [[9, 1, 9], [9, 9, 1], [1, 9, 9]]
        then Inr ([0, 1, 2], [1, 2, 0])
        else Inl (Raise ''ValueError'' [])),
      os_path_splitext = (\<lambda>p.
        if p = ''optimized_route.html'' then (''optimized_route'', ''.html'')
        else if p = ''route.json'' then (''route'', ''.json'')
        else (p, [])),
      folium_Map = (\<lambda>loc zoom. Inr \<lparr>location = loc, zoom_start = zoom, children = []\<rparr>),
      folium_PolyLine = (\<lambda>pts color weight. Inr (PolyLine pts color weight)),
      folium_Marker = (\<lambda>coords tooltip. Inr (Marker coords tooltip)),
      map_save = (\<lambda>m name fs. (Inr (), fs(name \<mapsto> m)))\<rparr>"

text \<open>
  A distance service that answers two locations with \<open>[[0, 10**400], [10**400, 0]]\<close>.
  \<open>np.array\<close> keeps such integers as Python objects, and the solver, which needs an
  array of doubles, raises \<open>TypeError\<close> on an array that holds one.
\<close>

definition big :: int where
  "big = 10 ^ 400"

definition scenario_big_integers :: libs where
  "scenario_big_integers =
     scenario_A\<lparr>requests_get := (\<lambda>url.
        Inr \<lparr>status_code = 200,
             json_body = Inr (JObj [(''code'', JStr ''Ok''),
                                    (''distances'', tolist (int_array [[0, big], [big, 0]]))])\<rparr>),
      linear_sum_assignment := (\<lambda>a.
        if a = int_array [[big]] \<or> a = int_array [[0, big], [big, 0]]
           \<or> a = int_array [[big, 1], [1, big]]
        then Inl (Raise ''TypeError'' [])
        else linear_sum_assignment scenario_A a)\<rparr>"

text \<open>Scenario B: every request is answered with HTTP 500.\<close>

definition scenario_B :: libs where
  "scenario_B = scenario_A\<lparr>requests_get := (\<lambda>url. Inr (error_response 500))\<rparr>"

text \<open>The distance service answers; the geometry service answers with HTTP 500.\<close>

definition scenario_B_route :: libs where
  "scenario_B_route =
     scenario_A\<lparr>requests_get := (\<lambda>url.
        if url = ''http://router.project-osrm.org/table/v1/driving/0.0,0.0;1.0,1.0?annotations=distance''
        then Inr (table_response [[0, 10], [10, 0]])
        else Inr (error_response 500))\<rparr>"

text \<open>A distance service that answers with a 1-by-1 matrix whatever was asked.\<close>

definition scenario_short_table :: libs where
  "scenario_short_table =
     scenario_A\<lparr>requests_get := (\<lambda>url. Inr (table_response [[0]]))\<rparr>"

text \<open>A distance service whose answer has no \<open>distances\<close> field.\<close>

definition scenario_no_distances :: libs where
  "scenario_no_distances =
     scenario_A\<lparr>requests_get := (\<lambda>url.
        Inr \<lparr>status_code = 200, json_body = Inr (JObj [(''code'', JStr ''Ok'')])\<rparr>)\<rparr>"

text \<open>A geometry service that answers with an empty \<open>routes\<close> array.\<close>

definition scenario_no_route :: libs where
  "scenario_no_route =
     scenario_A\<lparr>requests_get := (\<lambda>url. Inr (route_response (JArr [])))\<rparr>"

text \<open>Two locations, none of them the warehouse.\<close>

definition no_warehouse :: route_builder where
  "no_warehouse = \<lparr>locations = [(''depot'', warehouse_at), (''store'', store_at)]\<rparr>"

text \<open>The map that scenario A renders.\<close>

definition rendered_map :: folium_map where
  "rendered_map =
     \<lparr>location = [PyFloat (Finite 0), PyFloat (Finite 0)], zoom_start = 4,
      children =
        [PolyLine [(JNum (PyFloat (Finite 0)), JNum (PyFloat (Finite 0))),
                   (JNum (PyFloat (Finite 0.5)), JNum (PyFloat (Finite 0.5))),
                   (JNum (PyFloat (Finite 1)), JNum (PyFloat (Finite 1)))] ''blue'' 2.5,
         Marker warehouse_at ''warehouse'',
         Marker store_at ''store'']\<rparr>"

section \<open>Subscripts and comprehensions\<close>

lemma py_getitem_arange:
  "0 \<le> c \<Longrightarrow> c < int N \<Longrightarrow> py_getitem (map int [0..<N]) c = Inr c"
  by (simp add: py_getitem_def)

lemma comprehension_arange:
  "\<forall>c\<in>set cs. 0 \<le> c \<and> c < int N \<Longrightarrow> comprehension (py_getitem (map int [0..<N])) cs = Inr cs"
  by (induction cs) (simp_all add: py_getitem_arange)

lemma comprehension_nth:
  "\<forall>i\<in>set is. i < length xs \<Longrightarrow> comprehension (py_getitem xs) (map int is) = Inr (map (nth xs) is)"
  by (induction "is") (simp_all add: py_getitem_def)

lemma comprehension_identity:
  "comprehension (py_getitem xs) (map int [0..<length xs]) = Inr xs"
  by (simp add: comprehension_nth map_nth)

lemma comprehension_getitem_Inl:
  "comprehension (py_getitem xs) is = Inl e \<longleftrightarrow>
     e = Raise ''IndexError'' [] \<and> (\<exists>i\<in>set is. i < - int (length xs) \<or> int (length xs) \<le> i)"
  by (induction "is") (auto simp: py_getitem_def split: sum.splits)




section \<open>Assignments\<close>

text \<open>The list \<open>assignments N\<close> holds exactly the bijections of \<open>0..N-1\<close>, as lists.\<close>

lemma in_assignments_iff:
  "p \<in> set (assignments N) \<longleftrightarrow> length p = N \<and> distinct p \<and> set p \<subseteq> {0..<N}"
  by (auto simp: assignments_def set_n_lists)

lemma assignment_set:
  assumes "p \<in> set (assignments N)"
  shows "set p = {0..<N}"
proof -
  from assms have l: "length p = N" and d: "distinct p" and s: "set p \<subseteq> {0..<N}"
    by (simp_all add: in_assignments_iff)
  from d l have "card (set p) = card {0..<N}" by (simp add: distinct_card)
  with s show ?thesis by (simp add: card_subset_eq)
qed

lemma identity_in_assignments: "[0..<N] \<in> set (assignments N)"
  by (simp add: in_assignments_iff)

lemma is_assignmentD:
  assumes "is_assignment N (row_ind, col_ind)"
  shows "row_ind = map int [0..<N]" and "\<exists>p\<in>set (assignments N). col_ind = map int p"
  using assms by (auto simp: is_assignment_def)

lemma zero_diagonalD:
  assumes "zero_diagonal_positive_elsewhere N m" and "i < N" and "j < N"
  shows "m ! i ! i = 0" and "i \<noteq> j \<Longrightarrow> 0 < m ! i ! j"
  using assms by (auto simp: zero_diagonal_positive_elsewhere_def list_all_iff split: if_splits)

lemma sum_list_all_zero:
  "(\<And>x. x \<in> set xs \<Longrightarrow> f x = (0::real)) \<Longrightarrow> (\<Sum>x\<leftarrow>xs. f x) = 0"
  by (induction xs) simp_all

lemma identity_cost_zero:
  assumes "zero_diagonal_positive_elsewhere N m"
  shows "assignment_cost m [0..<N] = 0"
  unfolding assignment_cost_def
  by (rule sum_list_all_zero) (use assms in \<open>simp add: zero_diagonalD(1)\<close>)

lemma min_assignment_is_identity:
  assumes zd: "zero_diagonal_positive_elsewhere N m"
    and p: "p \<in> set (assignments N)"
    and le: "assignment_cost m p \<le> assignment_cost m [0..<N]"
  shows "p = [0..<N]"
proof -
  from p have lp: "length p = N" and sp: "set p = {0..<N}"
    by (simp_all add: in_assignments_iff assignment_set)
  have in_range: "p ! i < N" if "i < N" for i
    using that lp sp nth_mem [of i p] by auto
  have nonneg: "0 \<le> m ! i ! (p ! i)" if "i < N" for i
  proof (cases "p ! i = i")
    case True
    with zd that show ?thesis by (simp add: zero_diagonalD(1))
  next
    case False
    with zd that in_range [OF that] have "0 < m ! i ! (p ! i)"
      by (metis zero_diagonalD(2))
    then show ?thesis by simp
  qed
  let ?terms = "map (\<lambda>i. m ! i ! (p ! i)) [0..<N]"
  have cost: "assignment_cost m p = sum_list ?terms"
    by (simp add: assignment_cost_def lp)
  have all_nonneg: "\<And>x. x \<in> set ?terms \<Longrightarrow> 0 \<le> x"
    using nonneg by auto
  from le zd have "sum_list ?terms \<le> 0"
    by (simp add: cost identity_cost_zero)
  moreover have "0 \<le> sum_list ?terms"
    using all_nonneg by (rule sum_list_nonneg)
  ultimately have "sum_list ?terms = 0" by simp
  with all_nonneg have "\<forall>x\<in>set ?terms. x = 0"
    by (simp only: sum_list_nonneg_eq_0_iff)
  then have zero: "m ! i ! (p ! i) = 0" if "i < N" for i
    using that by simp
  have fixed: "p ! i = i" if "i < N" for i
  proof (rule ccontr)
    assume "p ! i \<noteq> i"
    with zd that in_range [OF that] have "0 < m ! i ! (p ! i)"
      by (metis zero_diagonalD(2))
    with zero [OF that] show False by simp
  qed
  show ?thesis
    by (rule nth_equalityI) (simp_all add: lp fixed)
qed




text \<open>
  Every matrix has a minimum-weight assignment among the finitely many, so the answer
  documented for the solver can be given on every input.
\<close>

lemma min_assignment_exists:
  "\<exists>cols. is_min_assignment N m (map int [0..<N], map int cols)"
proof -
  let ?S = "set (assignments N)"
  have "finite (assignment_cost m ` ?S)" and "assignment_cost m ` ?S \<noteq> {}"
    using identity_in_assignments [of N] by auto
  then obtain p where p: "p \<in> ?S"
    and least: "\<forall>q\<in>?S. assignment_cost m p \<le> assignment_cost m q"
    using Min_in [of "assignment_cost m ` ?S"] Min_le [of "assignment_cost m ` ?S"]
    by (metis (no_types, lifting) imageE imageI)
  have "map nat (map int p) = p" by (simp add: comp_def)
  with p least have "is_min_assignment N m (map int [0..<N], map int p)"
    by (simp add: is_min_assignment_def is_assignment_def list_all_iff)
  then show ?thesis ..
qed

section \<open>The solver's answers in the test doubles\<close>

lemma assignments_2: "assignments 2 = [[1, 0], [0, 1]]"
  by code_simp

lemma scenario_A_solver_identity:
  "linear_sum_assignment scenario_A (distance_array [[0, 10], [10, 0]]) = Inr ([0, 1], [0, 1])"
  by (simp add: scenario_A_def distance_array_def array2d_def)


lemma scenario_A_solver_nan:
  "linear_sum_assignment scenario_A (array2d [[NaN]]) = Inl (Raise ''ValueError'' [])"
  by (simp add: scenario_A_def distance_array_def array2d_def)

lemma scenario_A_solver_wide:
  "linear_sum_assignment scenario_A (distance_array [[1, 9, 9], [9, 1, 9]]) = Inr ([0, 1], [0, 1])"
  by (simp add: scenario_A_def distance_array_def array2d_def)

lemma assignments_3:
  "assignments 3 = [[2, 1, 0], [1, 2, 0], [2, 0, 1], [0, 2, 1], [1, 0, 2], [0, 1, 2]]"
  by code_simp


lemma cycle_is_min_assignment:
  "is_min_assignment 3 [[9, 1, 9], [9, 9, 1], [1, 9, 9]] ([0, 1, 2], [1, 2, 0])"
  by (simp add: is_min_assignment_def is_assignment_def assignments_3 upt_rec
      assignment_cost_def)

lemma big_solver_raises:
  "linear_sum_assignment scenario_big_integers (int_array [[big]]) = Inl (Raise ''TypeError'' [])"
  "linear_sum_assignment scenario_big_integers (int_array [[0, big], [big, 0]])
     = Inl (Raise ''TypeError'' [])"
  "linear_sum_assignment scenario_big_integers (int_array [[big, 1], [1, big]])
     = Inl (Raise ''TypeError'' [])"
  by (simp_all add: scenario_big_integers_def)

lemma big_is_large: "1 < big"
  unfolding big_def by (rule one_less_power) simp_all


lemma identity_is_min_assignment: "is_min_assignment 2 [[0, 10], [10, 0]] ([0, 1], [0, 1])"
  by (simp add: is_min_assignment_def is_assignment_def assignments_2 upt_rec
      assignment_cost_def)

section \<open>The Route Order Optimizer\<close>







text \<open>
  C4, as the code has it. \<open>_optimize_route_scipy\<close> checks nothing itself. It fails
  exactly when the solver raises, with the solver's own exception, or when an entry of
  \<open>col_ind\<close> is no valid subscript of \<open>row_ind\<close>, with \<open>IndexError\<close>; on every other
  matrix, square or not, it returns a list.
\<close>

theorem optimizer_fails_as_solver_or_subscript:
  "optimize_route_scipy L self dm = Inl e \<longleftrightarrow>
     linear_sum_assignment L dm = Inl e \<or>
     (\<exists>row_ind col_ind. linear_sum_assignment L dm = Inr (row_ind, col_ind)
        \<and> e = Raise ''IndexError'' []
        \<and> (\<exists>i\<in>set col_ind. i < - int (length row_ind) \<or> int (length row_ind) \<le> i))"
  by (auto simp: optimize_route_scipy_def comprehension_getitem_Inl split: sum.splits)

theorem optimizer_fails_as_solver_or_subscript_witness:
  "linear_sum_assignment scenario_A (array2d [[NaN]]) = Inl (Raise ''ValueError'' [])
   \<and> optimize_route_scipy scenario_A two_locations (array2d [[NaN]]) = Inl (Raise ''ValueError'' [])"
  using optimizer_fails_as_solver_or_subscript
          [of scenario_A two_locations "array2d [[NaN]]" "Raise ''ValueError'' []"]
        scenario_A_solver_nan
  by simp

text \<open>
  The claim as stated fails on a matrix of two rows and three columns: the solver assigns
  row 0 to column 0 and row 1 to column 1 (cost 2, every other choice costs 10 or more),
  and the method returns \<open>[0, 1]\<close> where the claim wants \<open>OptimizationError\<close>.
\<close>

theorem non_square_matrix_counterexample:
  "length [[1, 9, 9], [9, 1, 9::real]] = 2
   \<and> map length [[1, 9, 9], [9, 1, 9::real]] = [3, 3]
   \<and> optimize_route_scipy scenario_A two_locations (distance_array [[1, 9, 9], [9, 1, 9]])
       = Inr [0, 1]
   \<and> \<not> raises (optimize_route_scipy scenario_A two_locations
                   (distance_array [[1, 9, 9], [9, 1, 9]])) ''OptimizationError''"
  by (simp add: optimize_route_scipy_def scenario_A_solver_wide py_getitem_def raises_def)

section \<open>Library fields a step does not read\<close>

lemma lon_lat_requests [simp]: "lon_lat (L\<lparr>requests_get := g\<rparr>) = lon_lat L"
  by (rule ext) (simp add: lon_lat_def)

lemma table_url_requests [simp]: "table_url (L\<lparr>requests_get := g\<rparr>) locs = table_url L locs"
  by (simp add: table_url_def)

lemma route_url_requests [simp]: "route_url (L\<lparr>requests_get := g\<rparr>) ps = route_url L ps"
  by (simp add: route_url_def)

lemma lon_lat_splitext [simp]: "lon_lat (L\<lparr>os_path_splitext := s\<rparr>) = lon_lat L"
  by (rule ext) (simp add: lon_lat_def)

lemma table_url_splitext [simp]: "table_url (L\<lparr>os_path_splitext := s\<rparr>) locs = table_url L locs"
  by (simp add: table_url_def)

lemma route_url_splitext [simp]: "route_url (L\<lparr>os_path_splitext := s\<rparr>) ps = route_url L ps"
  by (simp add: route_url_def)

lemma get_distance_matrix_splitext [simp]:
  "get_distance_matrix (L\<lparr>os_path_splitext := s\<rparr>) self locs = get_distance_matrix L self locs"
  by (simp add: get_distance_matrix_def split: sum.splits)

lemma optimize_route_scipy_splitext [simp]:
  "optimize_route_scipy (L\<lparr>os_path_splitext := s\<rparr>) self dm = optimize_route_scipy L self dm"
  by (simp add: optimize_route_scipy_def)

lemma get_route_via_osrm_splitext [simp]:
  "get_route_via_osrm (L\<lparr>os_path_splitext := s\<rparr>) self ps = get_route_via_osrm L self ps"
  by (simp add: get_route_via_osrm_def)

lemma add_markers_splitext [simp]:
  "add_markers (L\<lparr>os_path_splitext := s\<rparr>) locs m = add_markers L locs m"
  by (induction locs arbitrary: m) (auto split: sum.splits)

lemma visualize_route_splitext [simp]:
  "visualize_route (L\<lparr>os_path_splitext := s\<rparr>) self rc = visualize_route L self rc"
  by (simp add: visualize_route_def split: sum.splits prod.splits)

section \<open>The steps of \<open>build\<close>\<close>

lemma build_table_failure:
  assumes "requests_get L (table_url L (locations self)) = Inr r" and "status_code r \<noteq> 200"
  shows "fst (build L self (Some name) w)
           = Inl (Raise ''Exception'' ''Failed to obtain distance matrix from OSRM'')"
    and "files (snd (build L self (Some name) w)) = files w"
  using assms by (simp_all add: build_def get_distance_matrix_def Let_def logger_warning_def)

lemma build_route_failure:
  assumes "get_distance_matrix L self (locations self) = Inr dm"
    and "optimize_route_scipy L self dm = Inr order"
    and "comprehension (py_getitem (map snd (locations self))) order = Inr ordered"
    and "requests_get L (route_url L ordered) = Inr r" and "status_code r \<noteq> 200"
  shows "fst (build L self (Some name) w)
           = Inl (Raise ''Exception'' ''Failed to obtain a route from OSRM'')"
    and "files (snd (build L self (Some name) w)) = files w"
  using assms by (simp_all add: build_def get_route_via_osrm_def Let_def logger_warning_def)

lemma build_renderer_failure:
  assumes "get_distance_matrix L self (locations self) = Inr dm"
    and "optimize_route_scipy L self dm = Inr order"
    and "comprehension (py_getitem (map snd (locations self))) order = Inr ordered"
    and "get_route_via_osrm L self ordered = Inr rc"
    and "visualize_route L self rc = Inl e"
  shows "fst (build L self (Some name) w) = Inl e"
    and "files (snd (build L self (Some name) w)) = files w"
  using assms by (simp_all add: build_def Let_def logger_warning_def)




lemma build_optimizer_failure:
  assumes "get_distance_matrix L self (locations self) = Inr dm"
    and "optimize_route_scipy L self dm = Inl e"
  shows "fst (build L self (Some name) w) = Inl e"
    and "files (snd (build L self (Some name) w)) = files w"
  using assms by (simp_all add: build_def Let_def logger_warning_def)

lemma build_in_insertion_order:
  assumes "get_distance_matrix L self (locations self) = Inr dm"
    and "optimize_route_scipy L self dm = Inr (map int [0..<length (locations self)])"
  shows "get_route_via_osrm L self (map snd (locations self)) = Inl e
           \<Longrightarrow> fst (build L self (Some name) w) = Inl e
               \<and> files (snd (build L self (Some name) w)) = files w"
    and "get_route_via_osrm L self (map snd (locations self)) = Inr rc
           \<Longrightarrow> visualize_route L self rc = Inl e
           \<Longrightarrow> fst (build L self (Some name) w) = Inl e
               \<and> files (snd (build L self (Some name) w)) = files w"
    and "get_route_via_osrm L self (map snd (locations self)) = Inr rc
           \<Longrightarrow> visualize_route L self rc = Inr route_map
           \<Longrightarrow> map_save L route_map name (files w) = (outcome, fs)
           \<Longrightarrow> fst (build L self (Some name) w) = outcome
               \<and> files (snd (build L self (Some name) w)) = fs"
proof -
  have ordered: "comprehension (py_getitem (map snd (locations self)))
                   (map int [0..<length (locations self)]) = Inr (map snd (locations self))"
    using comprehension_identity [of "map snd (locations self)"] by simp
  show "get_route_via_osrm L self (map snd (locations self)) = Inl e
           \<Longrightarrow> fst (build L self (Some name) w) = Inl e
               \<and> files (snd (build L self (Some name) w)) = files w"
    using assms ordered by (simp add: build_def Let_def logger_warning_def)
  show "get_route_via_osrm L self (map snd (locations self)) = Inr rc
           \<Longrightarrow> visualize_route L self rc = Inl e
           \<Longrightarrow> fst (build L self (Some name) w) = Inl e
               \<and> files (snd (build L self (Some name) w)) = files w"
    using assms ordered by (simp add: build_def Let_def logger_warning_def)
  show "get_route_via_osrm L self (map snd (locations self)) = Inr rc
           \<Longrightarrow> visualize_route L self rc = Inr route_map
           \<Longrightarrow> map_save L route_map name (files w) = (outcome, fs)
           \<Longrightarrow> fst (build L self (Some name) w) = outcome
               \<and> files (snd (build L self (Some name) w)) = fs"
    using assms ordered
    by (cases outcome) (simp_all add: build_def Let_def logger_warning_def logger_info_def)
qed

section \<open>The steps of the test doubles\<close>

lemma scenario_A_table_url:
  "table_url scenario_A (locations two_locations) =
     ''http://router.project-osrm.org/table/v1/driving/0.0,0.0;1.0,1.0?annotations=distance''"
  by (simp add: table_url_def two_locations_def warehouse_at_def store_at_def lon_lat_def
      scenario_A_def)

lemma scenario_A_route_url:
  "route_url scenario_A [warehouse_at, store_at] =
     ''http://router.project-osrm.org/route/v1/driving/0.0,0.0;1.0,1.0?overview=full&geometries=geojson''"
  by (simp add: route_url_def warehouse_at_def store_at_def lon_lat_def scenario_A_def)

lemma scenario_A_distance_matrix:
  "get_distance_matrix scenario_A two_locations (locations two_locations)
     = Inr (distance_array [[0, 10], [10, 0]])"
  by (simp add: get_distance_matrix_def scenario_A_table_url)
     (simp add: scenario_A_def table_response_def dict_getitem_def)

lemma scenario_A_route_order:
  "optimize_route_scipy scenario_A self (distance_array [[0, 10], [10, 0]]) = Inr [0, 1]"
  by (simp add: optimize_route_scipy_def scenario_A_solver_identity py_getitem_def)

lemma two_locations_ordered:
  "comprehension (py_getitem (map snd (locations two_locations))) [0, 1] = Inr [warehouse_at, store_at]"
  by (simp add: two_locations_def py_getitem_def)

lemma scenario_A_route:
  "get_route_via_osrm scenario_A self [warehouse_at, store_at] = Inr three_points"
  by (simp add: get_route_via_osrm_def scenario_A_route_url)
     (simp add: scenario_A_def route_response_def route_geometry_def dict_getitem_def
        py_getitem_def)

lemma scenario_B_table: 
  "requests_get scenario_B (table_url scenario_B (locations two_locations)) = Inr (error_response 500)"
  by (simp add: scenario_B_def)

lemma scenario_B_route_stages:
  "get_distance_matrix scenario_B_route two_locations (locations two_locations)
     = Inr (distance_array [[0, 10], [10, 0]])"
  "optimize_route_scipy scenario_B_route two_locations (distance_array [[0, 10], [10, 0]])
     = Inr [0, 1]"
  "requests_get scenario_B_route (route_url scenario_B_route [warehouse_at, store_at])
     = Inr (error_response 500)"
proof -
  have url: "table_url scenario_B_route (locations two_locations)
               = table_url scenario_A (locations two_locations)"
    by (simp add: scenario_B_route_def)
  show "get_distance_matrix scenario_B_route two_locations (locations two_locations)
          = Inr (distance_array [[0, 10], [10, 0]])"
    by (simp add: get_distance_matrix_def url scenario_A_table_url)
       (simp add: scenario_B_route_def scenario_A_def table_response_def dict_getitem_def)
  have "linear_sum_assignment scenario_B_route = linear_sum_assignment scenario_A"
    by (simp add: scenario_B_route_def)
  then show "optimize_route_scipy scenario_B_route two_locations
               (distance_array [[0, 10], [10, 0]]) = Inr [0, 1]"
    by (simp add: optimize_route_scipy_def scenario_A_solver_identity py_getitem_def)
  have "route_url scenario_B_route [warehouse_at, store_at] = route_url scenario_A [warehouse_at, store_at]"
    by (simp add: scenario_B_route_def)
  then show "requests_get scenario_B_route (route_url scenario_B_route [warehouse_at, store_at])
               = Inr (error_response 500)"
    by (simp add: scenario_A_route_url) (simp add: scenario_B_route_def)
qed

lemma scenario_short_table_request:
  "requests_get scenario_short_table (table_url scenario_short_table locs)
     = Inr (table_response [[0]])"
  by (simp add: scenario_short_table_def)

lemma scenario_no_distances_request:
  "requests_get scenario_no_distances (table_url scenario_no_distances locs)
     = Inr \<lparr>status_code = 200, json_body = Inr (JObj [(''code'', JStr ''Ok'')])\<rparr>"
  by (simp add: scenario_no_distances_def)

lemma scenario_no_route_request:
  "requests_get scenario_no_route (route_url scenario_no_route ps) = Inr (route_response (JArr []))"
  by (simp add: scenario_no_route_def)

lemma no_warehouse_values: "map snd (locations no_warehouse) = map snd (locations two_locations)"
  by (simp add: no_warehouse_def two_locations_def)

lemma no_warehouse_distance_matrix:
  "get_distance_matrix scenario_A no_warehouse (locations no_warehouse)
     = Inr (distance_array [[0, 10], [10, 0]])"
proof -
  have "table_url scenario_A (locations no_warehouse)
          = table_url scenario_A (locations two_locations)"
    by (simp add: table_url_def no_warehouse_values)
  then show ?thesis
    using scenario_A_distance_matrix by (simp add: get_distance_matrix_def)
qed

lemma scenario_A_rendering:
  "visualize_route scenario_A two_locations three_points = Inr rendered_map"
  by (simp add: visualize_route_def two_locations_def warehouse_at_def dict_getitem_def
      scenario_A_def swapped_points_def three_points_def unpack2_def add_to_def
      rendered_map_def)

lemma scenario_A_save:
  "map_save scenario_A m name fs = (Inr (), fs(name \<mapsto> m))"
  by (simp add: scenario_A_def)


lemma scenario_A_positive_distances:
  "positive_distance_array 2 (distance_array [[0, 10], [10, 0]])"
  "min_assignment_for 2 (distance_array [[0, 10], [10, 0]]) ([0, 1], [0, 1])"
proof -
  have entries: "finite_entries (distance_array [[0, 10], [10, 0]]) = Some [[0, 10], [10, 0]]"
    by (simp add: distance_array_def array2d_def)
  show "positive_distance_array 2 (distance_array [[0, 10], [10, 0]])"
    by (simp add: positive_distance_array_def entries positive_distance_matrix_def square_def
        zero_diagonal_positive_elsewhere_def upt_rec)
  show "min_assignment_for 2 (distance_array [[0, 10], [10, 0]]) ([0, 1], [0, 1])"
    by (simp add: min_assignment_for_def entries identity_is_min_assignment)
qed

lemma big_distance_matrix:
  "get_distance_matrix scenario_big_integers self locs = Inr (int_array [[0, big], [big, 0]])"
  by (simp add: get_distance_matrix_def scenario_big_integers_def scenario_A_def
      dict_getitem_def)

section \<open>The subscripts of the route response\<close>

lemma getitem_str_class:
  "getitem_str d k = Inl e \<Longrightarrow> exc_class e = ''KeyError'' \<or> exc_class e = ''TypeError''"
  by (cases d) (auto simp: dict_getitem_def split: option.splits)

lemma getitem_int_class:
  "getitem_int d i = Inl e \<Longrightarrow>
     exc_class e = ''KeyError'' \<or> exc_class e = ''IndexError'' \<or> exc_class e = ''TypeError''"
  by (cases d) (auto simp: py_getitem_def split: if_splits)

lemma route_geometry_class:
  assumes "route_geometry data = Inl e"
  shows "exc_class e = ''KeyError'' \<or> exc_class e = ''IndexError'' \<or> exc_class e = ''TypeError''"
  using assms getitem_str_class getitem_int_class
  unfolding route_geometry_def by (fastforce split: sum.splits)

lemma route_geometry_not_malformed: "\<not> raises (route_geometry data) ''MalformedResponseError''"
proof (cases "route_geometry data")
  case (Inl e)
  with route_geometry_class [OF Inl] show ?thesis by (auto simp: raises_def)
next
  case (Inr c)
  then show ?thesis by (simp add: raises_def)
qed

section \<open>Positive distances\<close>

lemma identity_on_positive_distances:
  assumes "positive_distance_array N dm"
    and "linear_sum_assignment L dm = Inr res" and "min_assignment_for N dm res"
  shows "optimize_route_scipy L self dm = Inr (map int [0..<N])"
proof -
  from assms(1) obtain m where m: "finite_entries dm = Some m"
    and zd: "zero_diagonal_positive_elsewhere N m"
    by (auto simp: positive_distance_array_def positive_distance_matrix_def
        split: option.splits)
  from assms(3) m have least: "is_min_assignment N m res"
    by (simp add: min_assignment_for_def)
  obtain row_ind col_ind where res: "res = (row_ind, col_ind)" by (cases res)
  from least res obtain p where rows: "row_ind = map int [0..<N]"
    and p: "p \<in> set (assignments N)" and cols: "col_ind = map int p"
    by (auto simp: is_min_assignment_def dest: is_assignmentD)
  from least res cols have "assignment_cost m p \<le> assignment_cost m [0..<N]"
    using identity_in_assignments [of N]
    by (simp add: is_min_assignment_def list_all_iff comp_def)
  with zd p have "p = [0..<N]" by (rule min_assignment_is_identity)
  with cols have cols': "col_ind = map int [0..<N]" by simp
  have "comprehension (py_getitem (map int [0..<N])) (map int [0..<N]) = Inr (map int [0..<N])"
    by (rule comprehension_arange) auto
  with assms(2) res rows cols' show ?thesis
    by (simp add: optimize_route_scipy_def)
qed

text \<open>
  C2, as the code has it. On an \<open>N\<close>-by-\<open>N\<close> matrix with a zero diagonal and strictly
  positive entries elsewhere on which the solver returns a minimum-weight assignment,
  \<open>_optimize_route_scipy\<close> returns the identity order \<open>[0, 1, ..., N-1]\<close>. A build that
  gets such a matrix for its \<open>N\<close> locations then asks for the route through the
  locations in their insertion order, and ends as the route request, the renderer and
  the save end on that order.
\<close>

theorem positive_distances_keep_insertion_order:
  assumes "positive_distance_array N dm"
    and "linear_sum_assignment L dm = Inr res" and "min_assignment_for N dm res"
  shows "optimize_route_scipy L self dm = Inr (map int [0..<N])
         \<and> (get_distance_matrix L self (locations self) = Inr dm \<and> length (locations self) = N
             \<longrightarrow>
               (\<forall>e. get_route_via_osrm L self (map snd (locations self)) = Inl e
                  \<longrightarrow> fst (build L self (Some name) w) = Inl e
                      \<and> files (snd (build L self (Some name) w)) = files w)
             \<and> (\<forall>rc e. get_route_via_osrm L self (map snd (locations self)) = Inr rc
                    \<and> visualize_route L self rc = Inl e
                  \<longrightarrow> fst (build L self (Some name) w) = Inl e
                      \<and> files (snd (build L self (Some name) w)) = files w)
             \<and> (\<forall>rc route_map outcome fs.
                    get_route_via_osrm L self (map snd (locations self)) = Inr rc
                    \<and> visualize_route L self rc = Inr route_map
                    \<and> map_save L route_map name (files w) = (outcome, fs)
                  \<longrightarrow> fst (build L self (Some name) w) = outcome
                      \<and> files (snd (build L self (Some name) w)) = fs))"
proof -
  have run: "optimize_route_scipy L self dm = Inr (map int [0..<N])"
    using assms by (rule identity_on_positive_distances)
  show ?thesis
  proof (intro conjI impI allI)
    show "optimize_route_scipy L self dm = Inr (map int [0..<N])" by (rule run)
  qed (use run in \<open>auto dest: build_in_insertion_order\<close>)
qed

theorem positive_distances_keep_insertion_order_witness:
  "positive_distance_array 2 (distance_array [[0, 10], [10, 0]])
   \<and> linear_sum_assignment scenario_A (distance_array [[0, 10], [10, 0]]) = Inr ([0, 1], [0, 1])
   \<and> min_assignment_for 2 (distance_array [[0, 10], [10, 0]]) ([0, 1], [0, 1])
   \<and> optimize_route_scipy scenario_A two_locations (distance_array [[0, 10], [10, 0]])
       = Inr [0, 1]
   \<and> get_distance_matrix scenario_A two_locations (locations two_locations)
       = Inr (distance_array [[0, 10], [10, 0]])
   \<and> length (locations two_locations) = 2
   \<and> map snd (locations two_locations) = [warehouse_at, store_at]
   \<and> get_route_via_osrm scenario_A two_locations [warehouse_at, store_at] = Inr three_points
   \<and> visualize_route scenario_A two_locations three_points = Inr rendered_map
   \<and> map_save scenario_A rendered_map ''optimized_route.html'' (files no_files)
       = (Inr (), Map.empty(''optimized_route.html'' \<mapsto> rendered_map))
   \<and> fst (build scenario_A two_locations (Some ''optimized_route.html'') no_files) = Inr ()
   \<and> files (snd (build scenario_A two_locations (Some ''optimized_route.html'') no_files))
       = Map.empty(''optimized_route.html'' \<mapsto> rendered_map)"
proof -
  have len: "length (locations two_locations) = 2" by (simp add: two_locations_def)
  have vals: "map snd (locations two_locations) = [warehouse_at, store_at]"
    by (simp add: two_locations_def)
  have upt2: "map int [0..<2] = [0, 1]" by (simp add: upt_rec)
  have save: "map_save scenario_A rendered_map ''optimized_route.html'' (files no_files)
                = (Inr (), Map.empty(''optimized_route.html'' \<mapsto> rendered_map))"
    by (simp add: scenario_A_save no_files_def)
  note route = scenario_A_route [of two_locations]
  from positive_distances_keep_insertion_order
         [OF scenario_A_positive_distances(1) scenario_A_solver_identity
            scenario_A_positive_distances(2),
          of two_locations "''optimized_route.html''" no_files]
    scenario_A_distance_matrix len route scenario_A_rendering save
  have "optimize_route_scipy scenario_A two_locations (distance_array [[0, 10], [10, 0]])
          = Inr [0, 1]
        \<and> fst (build scenario_A two_locations (Some ''optimized_route.html'') no_files) = Inr ()
        \<and> files (snd (build scenario_A two_locations (Some ''optimized_route.html'') no_files))
            = Map.empty(''optimized_route.html'' \<mapsto> rendered_map)"
    unfolding vals upt2 by blast
  with scenario_A_positive_distances scenario_A_solver_identity scenario_A_distance_matrix
    len vals route scenario_A_rendering save
  show ?thesis by simp
qed

text \<open>
  The claim as stated fails when the distance service answers two locations with
  \<open>[[0, 10**400], [10**400, 0]]\<close>, zero on the diagonal and positive elsewhere: the solver
  raises \<open>TypeError\<close>, so the method returns no order and the build ends with that
  exception before it asks for any route.
\<close>

theorem big_distances_counterexample:
  "positive_distance_array 2 (int_array [[0, big], [big, 0]])
   \<and> length (locations two_locations) = 2
   \<and> get_distance_matrix scenario_big_integers two_locations (locations two_locations)
       = Inr (int_array [[0, big], [big, 0]])
   \<and> optimize_route_scipy scenario_big_integers two_locations (int_array [[0, big], [big, 0]])
       = Inl (Raise ''TypeError'' [])
   \<and> fst (build scenario_big_integers two_locations (Some ''optimized_route.html'') no_files)
       = Inl (Raise ''TypeError'' [])"
proof -
  have positive: "positive_distance_array 2 (int_array [[0, big], [big, 0]])"
    using big_is_large
    by (simp add: positive_distance_array_def int_array_def positive_distance_matrix_def
        square_def zero_diagonal_positive_elsewhere_def upt_rec)
  have run: "optimize_route_scipy scenario_big_integers two_locations
               (int_array [[0, big], [big, 0]]) = Inl (Raise ''TypeError'' [])"
    by (simp add: optimize_route_scipy_def big_solver_raises)
  from build_optimizer_failure(1) [OF big_distance_matrix run]
  have "fst (build scenario_big_integers two_locations (Some ''optimized_route.html'') no_files)
          = Inl (Raise ''TypeError'' [])" .
  with positive run big_distance_matrix show ?thesis
    by (simp add: two_locations_def)
qed

section \<open>Failures of the routing services\<close>

text \<open>
  C5, as the code has it. If the distance request, or the geometry request once the build
  has come that far, is answered with a status other than 200, \<open>build\<close> raises a plain
  \<open>Exception\<close> with the message of the failing step, and the files are what they were:
  nothing is saved.
\<close>

theorem non_200_status_aborts_build:
  "(\<forall>r. requests_get L (table_url L (locations self)) = Inr r \<and> status_code r \<noteq> 200
      \<longrightarrow> fst (build L self (Some name) w)
            = Inl (Raise ''Exception'' ''Failed to obtain distance matrix from OSRM'')
          \<and> files (snd (build L self (Some name) w)) = files w)
   \<and> (\<forall>dm order ordered r.
        get_distance_matrix L self (locations self) = Inr dm
        \<and> optimize_route_scipy L self dm = Inr order
        \<and> comprehension (py_getitem (map snd (locations self))) order = Inr ordered
        \<and> requests_get L (route_url L ordered) = Inr r \<and> status_code r \<noteq> 200
      \<longrightarrow> fst (build L self (Some name) w)
            = Inl (Raise ''Exception'' ''Failed to obtain a route from OSRM'')
          \<and> files (snd (build L self (Some name) w)) = files w)"
  by (intro conjI allI impI; elim conjE)
     (simp_all add: build_table_failure build_route_failure)

theorem non_200_status_aborts_build_witness:
  "requests_get scenario_B (table_url scenario_B (locations two_locations))
     = Inr (error_response 500)
   \<and> status_code (error_response 500) \<noteq> 200
   \<and> fst (build scenario_B two_locations (Some ''optimized_route.html'') no_files)
       = Inl (Raise ''Exception'' ''Failed to obtain distance matrix from OSRM'')
   \<and> files (snd (build scenario_B two_locations (Some ''optimized_route.html'') no_files))
       = files no_files
   \<and> get_distance_matrix scenario_B_route two_locations (locations two_locations)
       = Inr (distance_array [[0, 10], [10, 0]])
   \<and> optimize_route_scipy scenario_B_route two_locations (distance_array [[0, 10], [10, 0]])
       = Inr [0, 1]
   \<and> comprehension (py_getitem (map snd (locations two_locations))) [0, 1]
       = Inr [warehouse_at, store_at]
   \<and> requests_get scenario_B_route (route_url scenario_B_route [warehouse_at, store_at])
       = Inr (error_response 500)
   \<and> fst (build scenario_B_route two_locations (Some ''optimized_route.html'') no_files)
       = Inl (Raise ''Exception'' ''Failed to obtain a route from OSRM'')
   \<and> files (snd (build scenario_B_route two_locations (Some ''optimized_route.html'') no_files))
       = files no_files"
proof -
  have st: "status_code (error_response 500) \<noteq> 200" by (simp add: error_response_def)
  from non_200_status_aborts_build
         [of scenario_B two_locations "''optimized_route.html''" no_files]
    scenario_B_table st
  have a: "fst (build scenario_B two_locations (Some ''optimized_route.html'') no_files)
             = Inl (Raise ''Exception'' ''Failed to obtain distance matrix from OSRM'')
           \<and> files (snd (build scenario_B two_locations (Some ''optimized_route.html'')
                          no_files)) = files no_files"
    by blast
  from non_200_status_aborts_build
         [of scenario_B_route two_locations "''optimized_route.html''" no_files]
    scenario_B_route_stages two_locations_ordered st
  have b: "fst (build scenario_B_route two_locations (Some ''optimized_route.html'') no_files)
             = Inl (Raise ''Exception'' ''Failed to obtain a route from OSRM'')
           \<and> files (snd (build scenario_B_route two_locations (Some ''optimized_route.html'')
                          no_files)) = files no_files"
    by blast
  from a b st scenario_B_table scenario_B_route_stages two_locations_ordered
  show ?thesis by simp
qed

text \<open>
  The claim as stated fails in scenario B: the distance service answers HTTP 500 and the
  exception that leaves \<open>build\<close> is of class \<open>Exception\<close>, not \<open>RoutingServiceError\<close>.
\<close>

theorem http_500_counterexample:
  "requests_get scenario_B (table_url scenario_B (locations two_locations))
     = Inr (error_response 500)
   \<and> status_code (error_response 500) = 500
   \<and> fst (build scenario_B two_locations (Some ''optimized_route.html'') no_files)
       = Inl (Raise ''Exception'' ''Failed to obtain distance matrix from OSRM'')
   \<and> \<not> raises (fst (build scenario_B two_locations (Some ''optimized_route.html'') no_files))
         ''RoutingServiceError''"
proof -
  have "get_distance_matrix scenario_B two_locations (locations two_locations)
          = Inl (Raise ''Exception'' ''Failed to obtain distance matrix from OSRM'')"
    by (simp add: get_distance_matrix_def scenario_B_table error_response_def)
  then have "fst (build scenario_B two_locations (Some ''optimized_route.html'') no_files)
          = Inl (Raise ''Exception'' ''Failed to obtain distance matrix from OSRM'')"
    by (simp add: build_def Let_def)
  then show ?thesis
    by (simp add: scenario_B_table error_response_def raises_def)
qed

text \<open>
  C6, as the code has it. On a status 200 whose body is a JSON object,
  \<open>_get_distance_matrix\<close> returns \<open>np.array\<close> of whatever the \<open>distances\<close> field
  holds, of any shape, and raises \<open>KeyError\<close> when the field is absent.
\<close>

theorem distance_matrix_is_unchecked:
  assumes "requests_get L (table_url L locs) = Inr r" and "status_code r = 200"
    and "json_body r = Inr (JObj kvs)"
  shows "(map_of kvs ''distances'' = None
            \<longrightarrow> get_distance_matrix L self locs = Inl (Raise ''KeyError'' ''distances''))
         \<and> (\<forall>d. map_of kvs ''distances'' = Some d
               \<longrightarrow> get_distance_matrix L self locs = np_array L d)"
  using assms by (simp add: get_distance_matrix_def dict_getitem_def)

theorem distance_matrix_is_unchecked_witness:
  "requests_get scenario_no_distances
       (table_url scenario_no_distances (locations two_locations))
     = Inr \<lparr>status_code = 200, json_body = Inr (JObj [(''code'', JStr ''Ok'')])\<rparr>
   \<and> map_of [(''code'', JStr ''Ok'')] ''distances'' = None
   \<and> get_distance_matrix scenario_no_distances two_locations (locations two_locations)
       = Inl (Raise ''KeyError'' ''distances'')
   \<and> requests_get scenario_short_table
         (table_url scenario_short_table (locations two_locations))
       = Inr (table_response [[0]])
   \<and> get_distance_matrix scenario_short_table two_locations (locations two_locations)
       = np_array scenario_short_table (tolist (distance_array [[0]]))"
proof -
  have k: "map_of [(''code'', JStr ''Ok'')] ''distances'' = None" by simp
  from distance_matrix_is_unchecked
         [where L = scenario_no_distances and locs = "locations two_locations"
            and kvs = "[(''code'', JStr ''Ok'')]" and self = two_locations
            and r = "\<lparr>status_code = 200, json_body = Inr (JObj [(''code'', JStr ''Ok'')])\<rparr>"]
    scenario_no_distances_request k
  have a: "get_distance_matrix scenario_no_distances two_locations (locations two_locations)
             = Inl (Raise ''KeyError'' ''distances'')"
    by simp
  have d: "map_of [(''code'', JStr ''Ok''), (''distances'', tolist (distance_array [[0]]))]
             ''distances'' = Some (tolist (distance_array [[0]]))"
    by simp
  from distance_matrix_is_unchecked
         [where L = scenario_short_table and locs = "locations two_locations"
            and kvs = "[(''code'', JStr ''Ok''), (''distances'', tolist (distance_array [[0]]))]"
            and self = two_locations and r = "table_response [[0]]"]
    scenario_short_table_request d
  have b: "get_distance_matrix scenario_short_table two_locations (locations two_locations)
             = np_array scenario_short_table (tolist (distance_array [[0]]))"
    by (simp add: table_response_def)
  from a b k scenario_no_distances_request scenario_short_table_request
  show ?thesis by simp
qed

text \<open>
  The claim as stated fails for two locations and a service that answers with the 1-by-1
  matrix \<open>[[0]]\<close>: that matrix is returned, and no exception is raised.
\<close>

theorem short_table_counterexample:
  "length (locations two_locations) = 2
   \<and> get_distance_matrix scenario_short_table two_locations (locations two_locations)
       = Inr (distance_array [[0]])
   \<and> \<not> square 2 [[0::real]]
   \<and> \<not> raises (get_distance_matrix scenario_short_table two_locations
                   (locations two_locations)) ''MalformedResponseError''"
proof -
  have "get_distance_matrix scenario_short_table two_locations (locations two_locations)
          = Inr (distance_array [[0]])"
    by (simp add: get_distance_matrix_def scenario_short_table_request)
       (simp add: table_response_def dict_getitem_def scenario_short_table_def scenario_A_def)
  then show ?thesis
    by (simp add: two_locations_def square_def raises_def)
qed

text \<open>
  C7, as the code has it. On a status 200 with a JSON body, \<open>_get_route_via_osrm\<close> fails
  with the error of the subscript that finds nothing: \<open>KeyError\<close> for a missing
  \<open>routes\<close>, \<open>geometry\<close> or \<open>coordinates\<close> key, \<open>IndexError\<close> for an empty \<open>routes\<close>
  array. It never raises \<open>MalformedResponseError\<close>.
\<close>

theorem missing_route_raises_lookup_error:
  assumes "requests_get L (route_url L ordered) = Inr r" and "status_code r = 200"
    and "json_body r = Inr data"
  shows "(\<forall>kvs. data = JObj kvs \<and> map_of kvs ''routes'' = None
            \<longrightarrow> get_route_via_osrm L self ordered = Inl (Raise ''KeyError'' ''routes''))
         \<and> (\<forall>kvs. data = JObj kvs \<and> map_of kvs ''routes'' = Some (JArr [])
            \<longrightarrow> get_route_via_osrm L self ordered = Inl (Raise ''IndexError'' []))
         \<and> (\<forall>kvs route rest. data = JObj kvs
               \<and> map_of kvs ''routes'' = Some (JArr (JObj route # rest))
               \<and> map_of route ''geometry'' = None
            \<longrightarrow> get_route_via_osrm L self ordered = Inl (Raise ''KeyError'' ''geometry''))
         \<and> (\<forall>kvs route rest geometry. data = JObj kvs
               \<and> map_of kvs ''routes'' = Some (JArr (JObj route # rest))
               \<and> map_of route ''geometry'' = Some (JObj geometry)
               \<and> map_of geometry ''coordinates'' = None
            \<longrightarrow> get_route_via_osrm L self ordered = Inl (Raise ''KeyError'' ''coordinates''))
         \<and> \<not> raises (get_route_via_osrm L self ordered) ''MalformedResponseError''"
proof -
  from assms have run: "get_route_via_osrm L self ordered = route_geometry data"
    by (simp add: get_route_via_osrm_def)
  show ?thesis
    unfolding run
    by (intro conjI allI impI; (elim conjE)?)
       (simp_all add: route_geometry_not_malformed,
        simp_all add: route_geometry_def dict_getitem_def py_getitem_def)
qed

theorem missing_route_raises_lookup_error_witness:
  "requests_get scenario_no_route (route_url scenario_no_route [warehouse_at, store_at])
     = Inr (route_response (JArr []))
   \<and> status_code (route_response (JArr [])) = 200
   \<and> json_body (route_response (JArr []))
       = Inr (JObj [(''code'', JStr ''Ok''), (''routes'', JArr [])])
   \<and> map_of [(''code'', JStr ''Ok''), (''routes'', JArr [])] ''routes'' = Some (JArr [])
   \<and> get_route_via_osrm scenario_no_route two_locations [warehouse_at, store_at]
       = Inl (Raise ''IndexError'' [])"
proof -
  have st: "status_code (route_response (JArr [])) = 200"
    and body: "json_body (route_response (JArr []))
                 = Inr (JObj [(''code'', JStr ''Ok''), (''routes'', JArr [])])"
    by (simp_all add: route_response_def)
  have k: "map_of [(''code'', JStr ''Ok''), (''routes'', JArr [])] ''routes'' = Some (JArr [])"
    by simp
  from missing_route_raises_lookup_error
         [where L = scenario_no_route and ordered = "[warehouse_at, store_at]"
            and r = "route_response (JArr [])" and self = two_locations
            and data = "JObj [(''code'', JStr ''Ok''), (''routes'', JArr [])]"]
    scenario_no_route_request st body k
  have "get_route_via_osrm scenario_no_route two_locations [warehouse_at, store_at]
          = Inl (Raise ''IndexError'' [])"
    by blast
  with scenario_no_route_request st body k show ?thesis by simp
qed

text \<open>
  The claim as stated fails on the body \<open>{"code": "Ok", "routes": []}\<close>: the exception is
  an \<open>IndexError\<close>.
\<close>

theorem empty_routes_counterexample:
  "requests_get scenario_no_route (route_url scenario_no_route [warehouse_at, store_at])
     = Inr \<lparr>status_code = 200,
            json_body = Inr (JObj [(''code'', JStr ''Ok''), (''routes'', JArr [])])\<rparr>
   \<and> get_route_via_osrm scenario_no_route two_locations [warehouse_at, store_at]
       = Inl (Raise ''IndexError'' [])
   \<and> \<not> raises (get_route_via_osrm scenario_no_route two_locations [warehouse_at, store_at])
         ''MalformedResponseError''"
proof -
  have "get_route_via_osrm scenario_no_route two_locations [warehouse_at, store_at]
          = Inl (Raise ''IndexError'' [])"
    by (simp add: get_route_via_osrm_def scenario_no_route_request)
       (simp add: route_response_def route_geometry_def dict_getitem_def py_getitem_def)
  then show ?thesis
    by (simp add: scenario_no_route_request route_response_def raises_def)
qed

section \<open>The renderer without a warehouse\<close>

text \<open>
  C8, as the code has it. If \<open>"warehouse"\<close> is no key of the locations, the renderer
  raises \<open>KeyError\<close> with that key before it creates the map; a build that reaches the
  renderer ends with this \<open>KeyError\<close> and saves nothing.
\<close>

theorem missing_warehouse_raises_key_error:
  assumes "map_of (locations self) ''warehouse'' = None"
  shows "visualize_route L self route_coordinates = Inl (Raise ''KeyError'' ''warehouse'')
         \<and> (\<forall>dm order ordered rc.
               get_distance_matrix L self (locations self) = Inr dm
               \<and> optimize_route_scipy L self dm = Inr order
               \<and> comprehension (py_getitem (map snd (locations self))) order = Inr ordered
               \<and> get_route_via_osrm L self ordered = Inr rc
             \<longrightarrow> fst (build L self (Some name) w) = Inl (Raise ''KeyError'' ''warehouse'')
                 \<and> files (snd (build L self (Some name) w)) = files w)"
proof -
  from assms have v: "visualize_route L self rc = Inl (Raise ''KeyError'' ''warehouse'')" for rc
    by (simp add: visualize_route_def dict_getitem_def)
  show ?thesis
    by (intro conjI allI impI; (elim conjE)?)
       (simp_all add: v build_renderer_failure)
qed

theorem missing_warehouse_raises_key_error_witness:
  "map_of (locations no_warehouse) ''warehouse'' = None
   \<and> visualize_route scenario_A no_warehouse three_points = Inl (Raise ''KeyError'' ''warehouse'')
   \<and> get_distance_matrix scenario_A no_warehouse (locations no_warehouse)
       = Inr (distance_array [[0, 10], [10, 0]])
   \<and> optimize_route_scipy scenario_A no_warehouse (distance_array [[0, 10], [10, 0]])
       = Inr [0, 1]
   \<and> comprehension (py_getitem (map snd (locations no_warehouse))) [0, 1]
       = Inr [warehouse_at, store_at]
   \<and> get_route_via_osrm scenario_A no_warehouse [warehouse_at, store_at] = Inr three_points
   \<and> fst (build scenario_A no_warehouse (Some ''optimized_route.html'') no_files)
       = Inl (Raise ''KeyError'' ''warehouse'')
   \<and> files (snd (build scenario_A no_warehouse (Some ''optimized_route.html'') no_files))
       = files no_files"
proof -
  have a: "map_of (locations no_warehouse) ''warehouse'' = None"
    by (simp add: no_warehouse_def)
  have o: "comprehension (py_getitem (map snd (locations no_warehouse))) [0, 1]
             = Inr [warehouse_at, store_at]"
    by (simp only: no_warehouse_values two_locations_ordered)
  note stages = no_warehouse_distance_matrix scenario_A_route_order [of no_warehouse] o
    scenario_A_route [of no_warehouse]
  from missing_warehouse_raises_key_error
         [OF a, of scenario_A three_points "''optimized_route.html''" no_files] stages
  have "visualize_route scenario_A no_warehouse three_points
          = Inl (Raise ''KeyError'' ''warehouse'')
        \<and> fst (build scenario_A no_warehouse (Some ''optimized_route.html'') no_files)
            = Inl (Raise ''KeyError'' ''warehouse'')
        \<and> files (snd (build scenario_A no_warehouse (Some ''optimized_route.html'') no_files))
            = files no_files"
    by blast
  with a stages show ?thesis by simp
qed

text \<open>
  The claim as stated fails for the locations \<open>depot\<close> and \<open>store\<close> in scenario A: the
  build ends with \<open>KeyError\<close>, not with \<open>MissingWarehouseError\<close>.
\<close>

theorem no_warehouse_counterexample:
  "map_of (locations no_warehouse) ''warehouse'' = None
   \<and> fst (build scenario_A no_warehouse (Some ''optimized_route.html'') no_files)
       = Inl (Raise ''KeyError'' ''warehouse'')
   \<and> \<not> raises (fst (build scenario_A no_warehouse (Some ''optimized_route.html'') no_files))
         ''MissingWarehouseError''"
proof -
  have o: "comprehension (py_getitem (map snd (locations no_warehouse))) [0, 1]
             = Inr [warehouse_at, store_at]"
    by (simp only: no_warehouse_values two_locations_ordered)
  have v: "visualize_route scenario_A no_warehouse three_points
             = Inl (Raise ''KeyError'' ''warehouse'')"
    by (simp add: visualize_route_def dict_getitem_def no_warehouse_def)
  have "fst (build scenario_A no_warehouse (Some ''optimized_route.html'') no_files)
          = Inl (Raise ''KeyError'' ''warehouse'')"
    by (rule build_renderer_failure
          [OF no_warehouse_distance_matrix scenario_A_route_order o scenario_A_route v])
  then show ?thesis by (simp add: raises_def no_warehouse_def)
qed

section \<open>The extension check\<close>



end
